theory Spec2Isabelle
  imports Complex_Main
begin

section \<open>Shared vocabulary of the two pages\<close>

text \<open>
  Both pages call \<^verbatim>\<open>toastError\<close> and \<^verbatim>\<open>toastSuccess\<close> with a title and a description.
  A notification is recorded as a value; the list of notifications a page has shown so far
  is part of its state, so that "a notification fires" is a fact about the state.
\<close>

datatype Toast = ToastError string string | ToastSuccess string string

text \<open>
  The outcome of an awaited \<^verbatim>\<open>fetch\<close> followed by \<^verbatim>\<open>res.json()\<close>: either the
  promise rejects (network failure, unparsable body: control reaches \<^verbatim>\<open>catch\<close>), or a
  body is delivered.
\<close>

datatype 'a FetchResult = Threw | Responded 'a

text \<open>
  Both components keep \<^verbatim>\<open>studentEmail\<close> in their state; the notification log is the
  effect of the toast calls.
\<close>

record Page =
  studentEmail :: string
  toasts :: "Toast list"

section \<open>The submission page (src/app/student/submit/page.tsx)\<close>

datatype Status = Good | Bad | Flagged | Pending

record InspectionItem =
  id' :: string
  name :: string
  description :: string
  status :: Status
  comment :: string

text \<open>The body of the POST that \<^verbatim>\<open>handleSubmit\<close> sends.\<close>

record Summary =
  totalItems :: nat
  goodItems :: nat
  badItems :: nat
  flaggedItems :: nat
  completionDate :: string

record SubmitRequest =
  reporterEmail :: string
  reqTitle :: string
  reqGeneralComment :: string
  evaluatedItems :: "InspectionItem list"
  summary :: Summary
  category :: string

record SubmitPage = Page +
  items :: "InspectionItem list"
  isLoading :: bool
  isSubmitting :: bool
  generalComment :: string
  submitRequests :: "SubmitRequest list"

text \<open>
  \<^verbatim>\<open>handleStatusChange\<close> and \<^verbatim>\<open>handleCommentChange\<close>:
  \<^verbatim>\<open>setItems(prev => prev.map(item => item.id === itemId ? {...item, status} : item))\<close>.
\<close>

definition handleStatusChange :: "string \<Rightarrow> Status \<Rightarrow> SubmitPage \<Rightarrow> SubmitPage" where
  "handleStatusChange itemId s st =
     st\<lparr>items := map (\<lambda>item. if id' item = itemId then item\<lparr>status := s\<rparr> else item) (items st)\<rparr>"

definition handleCommentChange :: "string \<Rightarrow> string \<Rightarrow> SubmitPage \<Rightarrow> SubmitPage" where
  "handleCommentChange itemId c st =
     st\<lparr>items := map (\<lambda>item. if id' item = itemId then item\<lparr>comment := c\<rparr> else item) (items st)\<rparr>"

text \<open>
  The catalog the server returns: \<^verbatim>\<open>{success, items:[{id, name, description}], message}\<close>.
  \<^verbatim>\<open>itemsSuccess\<close> is the truthiness of \<^verbatim>\<open>data.success\<close>; \<^verbatim>\<open>itemsArray\<close> is
  \<^verbatim>\<open>Some xs\<close> exactly when \<^verbatim>\<open>Array.isArray(data.items)\<close>; a description may be absent.
\<close>

record CatalogItem =
  catalogId :: string
  catalogName :: string
  catalogDescription :: "string option"

record ItemsBody =
  itemsSuccess :: bool
  itemsArray :: "CatalogItem list option"
  itemsMessage :: "string option"

text \<open>\<^verbatim>\<open>x || d\<close> on an optional string: an absent and an empty string are both falsy.\<close>

definition orDefault :: "string option \<Rightarrow> string \<Rightarrow> string" where
  "orDefault x d = (case x of None \<Rightarrow> d | Some s \<Rightarrow> if s = [] then d else s)"

text \<open>\<^verbatim>\<open>x || 0\<close> on an optional count.\<close>

definition orZero :: "nat option \<Rightarrow> nat" where
  "orZero x = (case x of None \<Rightarrow> 0 | Some n \<Rightarrow> n)"

definition fallbackItems :: "InspectionItem list" where
  "fallbackItems =
     [\<lparr>id' = ''1'', name = ''Classroom Cleanliness'',
        description = ''Overall cleanliness and tidiness of the classroom'',
        status = Pending, comment = ''''\<rparr>,
      \<lparr>id' = ''2'', name = ''Furniture Condition'',
        description = ''Condition of desks, chairs, and other furniture'',
        status = Pending, comment = ''''\<rparr>,
      \<lparr>id' = ''3'', name = ''Electrical Safety'',
        description = ''Electrical outlets, switches, and wiring safety'',
        status = Pending, comment = ''''\<rparr>,
      \<lparr>id' = ''4'', name = ''Lighting System'',
        description = ''Functionality of lights and natural lighting'',
        status = Pending, comment = ''''\<rparr>,
      \<lparr>id' = ''5'', name = ''Ventilation'',
        description = ''Air quality and ventilation system'',
        status = Pending, comment = ''''\<rparr>]"

definition projectItem :: "CatalogItem \<Rightarrow> InspectionItem" where
  "projectItem item =
     \<lparr>id' = catalogId item, name = catalogName item,
      description = orDefault (catalogDescription item) ''No description provided.'',
      status = Pending, comment = ''''\<rparr>"

definition initialSubmitPage :: SubmitPage where
  "initialSubmitPage =
     \<lparr>studentEmail = '''', toasts = [], items = [], isLoading = True, isSubmitting = False,
      generalComment = '''', submitRequests = []\<rparr>"

text \<open>
  \<^verbatim>\<open>fetchItems\<close>, run once on mount, with the outcome of the request as its argument.
  The \<^verbatim>\<open>try\<close> block has two branches and the \<^verbatim>\<open>catch\<close> block is the third;
  \<^verbatim>\<open>finally\<close> clears \<^verbatim>\<open>isLoading\<close> in all of them. The two \<^verbatim>\<open>console.error\<close>
  calls have no effect on the state and are left out.
\<close>

definition fetchItems :: "ItemsBody FetchResult \<Rightarrow> SubmitPage \<Rightarrow> SubmitPage" where
  "fetchItems r st =
     (case r of
        Responded data \<Rightarrow>
          (case (itemsSuccess data, itemsArray data) of
             (True, Some arr) \<Rightarrow> st\<lparr>items := map projectItem arr, isLoading := False\<rparr>
           | _ \<Rightarrow> st\<lparr>items := fallbackItems, isLoading := False\<rparr>)
      | Threw \<Rightarrow>
          st\<lparr>toasts := toasts st @
                [ToastError ''Connection Error''
                   ''Failed to load inspection items. Using demo data.''],
             isLoading := False\<rparr>)"

text \<open>
  \<^verbatim>\<open>stats\<close>: the \<^verbatim>\<open>reduce\<close> over the items, from the empty object, whose
  callback \<^verbatim>\<open>acc[item.status] = (acc[item.status] || 0) + 1\<close> adds one to the entry of
  the item's status.
\<close>

definition countStatus :: "(Status \<rightharpoonup> nat) \<Rightarrow> InspectionItem \<Rightarrow> (Status \<rightharpoonup> nat)" where
  "countStatus acc item = acc(status item \<mapsto> orZero (acc (status item)) + 1)"

definition stats :: "InspectionItem list \<Rightarrow> (Status \<rightharpoonup> nat)" where
  "stats its = foldl countStatus Map.empty its"

definition handleMarkAllGood :: "SubmitPage \<Rightarrow> SubmitPage" where
  "handleMarkAllGood st =
     st\<lparr>items := map (\<lambda>item. item\<lparr>status := Good\<rparr>) (items st),
        toasts := toasts st @
          [ToastSuccess ''All items marked as Good''
             ''You can still modify individual items as needed.'']\<rparr>"

definition handleClearSelection :: "SubmitPage \<Rightarrow> SubmitPage" where
  "handleClearSelection st =
     st\<lparr>items := map (\<lambda>item. item\<lparr>status := Pending, comment := ''''\<rparr>) (items st),
        toasts := toasts st @
          [ToastSuccess ''Selection cleared''
             ''All items have been reset to pending status.'']\<rparr>"

text \<open>
  \<^verbatim>\<open>String.prototype.trim\<close> on the characters of the ASCII range: tab, line feed,
  vertical tab, form feed, carriage return and space are white space.
\<close>

definition isWhitespace :: "char \<Rightarrow> bool" where
  "isWhitespace c = (c \<in> set [CHR 0x09, CHR 0x0A, CHR 0x0B, CHR 0x0C, CHR 0x0D, CHR '' ''])"

definition trim :: "string \<Rightarrow> string" where
  "trim s = rev (dropWhile isWhitespace (rev (dropWhile isWhitespace s)))"










section \<open>The report list page (src/unnamed/part_000)\<close>

datatype ReportStatus = ReportPending | Approved | Rejected

record Report =
  reportId :: string
  title :: string
  submissionDate :: string
  csApproved :: bool
  cpApproved :: bool
  reportStatus :: ReportStatus
  class' :: string

datatype FilterType = AllReports | Daily | Weekly | Monthly

record PaginationInfo =
  currentPage :: int
  totalPages :: int
  totalReports :: int
  hasNext :: bool
  hasPrev :: bool

text \<open>
  The query of a listing request, as \<^verbatim>\<open>fetchReports\<close> builds it with
  \<^verbatim>\<open>URLSearchParams\<close>: \<^verbatim>\<open>filter\<close> is appended unless the filter is \<^verbatim>\<open>all\<close>,
  \<^verbatim>\<open>search\<close> (trimmed) unless the trimmed text is empty.
\<close>

record ListRequest =
  reqStudentEmail :: string
  reqPage :: int
  reqLimit :: string
  reqFilter :: "FilterType option"
  reqSearch :: "string option"

text \<open>
  The body of a listing response,
  \<^verbatim>\<open>{success, data:{reports, pagination}, message}\<close>; an absent (falsy) member is
  \<^verbatim>\<open>None\<close>. A response is either no response at all (\<^verbatim>\<open>fetch\<close> rejects) or an
  HTTP status with the body \<^verbatim>\<open>response.json()\<close> delivers (\<^verbatim>\<open>None\<close> when it rejects).
\<close>

record ReportsData =
  dataReports :: "Report list option"
  dataPagination :: "PaginationInfo option"

record ReportsBody =
  resSuccess :: bool
  resData :: "ReportsData option"
  resMessage :: "string option"

datatype ListResponse = FetchFailed | Http nat "ReportsBody option"

text \<open>
  The pending \<^verbatim>\<open>setTimeout\<close> of the fetch effect: the time left until it fires, and
  the filter and search text its callback closed over.
\<close>

record Timer =
  delay :: nat
  timerFilter :: FilterType
  timerSearch :: string

text \<open>
  The state of \<^verbatim>\<open>ReportPage\<close>. Besides the \<^verbatim>\<open>useState\<close> cells the claims are
  about, it records the listing requests sent so far and the pending timer. The cells of
  the detail modal and of the download button are not part of any operation modelled here.
\<close>

record ReportPage = Page +
  loading :: bool
  reports :: "Report list"
  activeFilter :: FilterType
  searchQuery :: string
  pagination :: PaginationInfo
  listRequests :: "ListRequest list"
  timer :: "Timer option"

definition defaultPagination :: PaginationInfo where
  "defaultPagination =
     \<lparr>currentPage = 1, totalPages = 1, totalReports = 0, hasNext = False, hasPrev = False\<rparr>"

definition initialReportPage :: ReportPage where
  "initialReportPage =
     \<lparr>studentEmail = '''', toasts = [], loading = True, reports = [], activeFilter = AllReports,
      searchQuery = '''', pagination = defaultPagination, listRequests = [], timer = None\<rparr>"

definition listParams :: "string \<Rightarrow> FilterType \<Rightarrow> string \<Rightarrow> int \<Rightarrow> ListRequest" where
  "listParams email filter' search page =
     \<lparr>reqStudentEmail = email, reqPage = page, reqLimit = ''10'',
      reqFilter = (if filter' \<noteq> AllReports then Some filter' else None),
      reqSearch = (if search \<noteq> [] \<and> trim search \<noteq> [] then Some (trim search) else None)\<rparr>"

text \<open>
  \<^verbatim>\<open>fetchReports\<close> up to its \<^verbatim>\<open>await fetch\<close>: nothing happens without the identity
  value; otherwise \<^verbatim>\<open>setLoading(true)\<close> and the request.
\<close>

definition fetchReports_send :: "FilterType \<Rightarrow> string \<Rightarrow> int \<Rightarrow> ReportPage \<Rightarrow> ReportPage" where
  "fetchReports_send filter' search page st =
     (if studentEmail st = [] then st
      else st\<lparr>loading := True,
              listRequests := listRequests st @ [listParams (studentEmail st) filter' search page]\<rparr>)"

text \<open>The \<^verbatim>\<open>catch\<close> block of \<^verbatim>\<open>fetchReports\<close>, followed by \<^verbatim>\<open>finally\<close>.\<close>

definition fetchReports_caught :: "ReportPage \<Rightarrow> ReportPage" where
  "fetchReports_caught st =
     st\<lparr>toasts := toasts st @
          [ToastError ''Failed to Load Reports''
             ''Unable to fetch reports. Please try again later.''],
        reports := [], pagination := defaultPagination, loading := False\<rparr>"

text \<open>
  \<^verbatim>\<open>fetchReports\<close> from the response on, in the order of the source: status 404; any
  other status that is not \<^verbatim>\<open>response.ok\<close> (200 to 299) throws; a body that cannot be
  parsed throws; \<^verbatim>\<open>result.success && result.data\<close>; the \<^verbatim>\<open>else\<close> branch, which
  only logs to the console.
\<close>

definition fetchReports_receive :: "ListResponse \<Rightarrow> ReportPage \<Rightarrow> ReportPage" where
  "fetchReports_receive resp st =
     (case resp of
        FetchFailed \<Rightarrow> fetchReports_caught st
      | Http code body \<Rightarrow>
          if code = 404 then
            st\<lparr>reports := [], pagination := defaultPagination, loading := False\<rparr>
          else if \<not> (200 \<le> code \<and> code \<le> 299) then fetchReports_caught st
          else
            (case body of
               None \<Rightarrow> fetchReports_caught st
             | Some result \<Rightarrow>
                 (case (resSuccess result, resData result) of
                    (True, Some d) \<Rightarrow>
                      st\<lparr>reports := (case dataReports d of None \<Rightarrow> [] | Some rs \<Rightarrow> rs),
                         pagination :=
                           (case dataPagination d of None \<Rightarrow> defaultPagination | Some p \<Rightarrow> p),
                         loading := False\<rparr>
                  | _ \<Rightarrow>
                      st\<lparr>reports := [], pagination := defaultPagination, loading := False\<rparr>)))"

definition fetchReports ::
  "FilterType \<Rightarrow> string \<Rightarrow> int \<Rightarrow> ListResponse \<Rightarrow> ReportPage \<Rightarrow> ReportPage" where
  "fetchReports filter' search page resp st =
     (if studentEmail st = [] then st
      else fetchReports_receive resp (fetchReports_send filter' search page st))"

text \<open>
  The body of the fetch effect, run after the cleanup of its previous run
  (\<^verbatim>\<open>clearTimeout\<close>): without the identity value it returns at once; otherwise it sets a
  timer of 500 ms when the search text is non-empty and of 0 ms when it is empty, whose
  callback is \<^verbatim>\<open>fetchReports(activeFilter, searchQuery, 1)\<close>.
\<close>

definition fetchEffect :: "ReportPage \<Rightarrow> ReportPage" where
  "fetchEffect st =
     (if studentEmail st = [] then st\<lparr>timer := None\<rparr>
      else st\<lparr>timer := Some \<lparr>delay = (if searchQuery st \<noteq> [] then 500 else 0),
                               timerFilter = activeFilter st,
                               timerSearch = searchQuery st\<rparr>\<rparr>)"

text \<open>
  React runs the effect again after a render in which one of its dependencies
  \<^verbatim>\<open>[studentEmail, activeFilter, searchQuery]\<close> differs from the previous render.
\<close>

definition commit :: "ReportPage \<Rightarrow> ReportPage \<Rightarrow> ReportPage" where
  "commit old new =
     (if studentEmail new = studentEmail old \<and> activeFilter new = activeFilter old \<and>
         searchQuery new = searchQuery old
      then new else fetchEffect new)"

definition handleFilterChange :: "FilterType \<Rightarrow> ReportPage \<Rightarrow> ReportPage" where
  "handleFilterChange filter' st = st\<lparr>activeFilter := filter'\<rparr>"

definition handleSearchChange :: "string \<Rightarrow> ReportPage \<Rightarrow> ReportPage" where
  "handleSearchChange text' st = st\<lparr>searchQuery := text'\<rparr>"

text \<open>A click on a filter button, and an edit of the search box, each with its render.\<close>

definition filterChanged :: "FilterType \<Rightarrow> ReportPage \<Rightarrow> ReportPage" where
  "filterChanged filter' st = commit st (handleFilterChange filter' st)"

definition searchChanged :: "string \<Rightarrow> ReportPage \<Rightarrow> ReportPage" where
  "searchChanged text' st = commit st (handleSearchChange text' st)"

text \<open>The first renders: the identity value read from the storage is set, then rendered.\<close>

definition mountReportPage :: "string \<Rightarrow> ReportPage" where
  "mountReportPage email = commit initialReportPage (initialReportPage\<lparr>studentEmail := email\<rparr>)"

text \<open>
  The passing of \<^verbatim>\<open>ms\<close> milliseconds with no other event: a timer that is due fires
  and its callback sends the request; otherwise its remaining time shrinks.
\<close>

definition elapse :: "nat \<Rightarrow> ReportPage \<Rightarrow> ReportPage" where
  "elapse ms st =
     (case timer st of
        None \<Rightarrow> st
      | Some t \<Rightarrow>
          if delay t \<le> ms then fetchReports_send (timerFilter t) (timerSearch t) 1 (st\<lparr>timer := None\<rparr>)
          else st\<lparr>timer := Some (t\<lparr>delay := delay t - ms\<rparr>)\<rparr>)"



definition handlePageChange :: "int \<Rightarrow> ListResponse \<Rightarrow> ReportPage \<Rightarrow> ReportPage" where
  "handlePageChange newPage resp st =
     (if 1 \<le> newPage \<and> newPage \<le> totalPages (pagination st)
      then fetchReports (activeFilter st) (searchQuery st) newPage resp st
      else st)"

text \<open>The invariant the specification states for the pagination.\<close>

definition paginationInv :: "PaginationInfo \<Rightarrow> bool" where
  "paginationInv p =
     ((1 \<le> totalPages p \<longrightarrow> 1 \<le> currentPage p \<and> currentPage p \<le> totalPages p) \<and>
      (hasPrev p \<longleftrightarrow> 1 < currentPage p) \<and>
      (hasNext p \<longleftrightarrow> currentPage p < totalPages p))"

text \<open>The pagination a response carries into the state, if it carries one.\<close>

definition responsePagination :: "ListResponse \<Rightarrow> PaginationInfo option" where
  "responsePagination resp =
     (case resp of
        FetchFailed \<Rightarrow> None
      | Http code body \<Rightarrow>
          if code = 404 \<or> \<not> (200 \<le> code \<and> code \<le> 299) then None
          else
            (case body of
               None \<Rightarrow> None
             | Some result \<Rightarrow>
                 (case (resSuccess result, resData result) of
                    (True, Some d) \<Rightarrow> dataPagination d
                  | _ \<Rightarrow> None)))"

section \<open>The numbers of the progress display\<close>

text \<open>
  The percentage the page displays is computed with ECMAScript numbers:
  \<^verbatim>\<open>Math.round(((items.length - (stats.pending || 0)) / items.length) * 100)\<close>.
  A number is NaN, an infinity (\<^verbatim>\<open>Infinity True\<close> is the positive one) or a finite
  value; every operation computes the exact result and rounds it to the nearest binary64
  value, ties to even. The sign of zero is not modelled.
\<close>

datatype Number = NaN | Infinity bool | Val rat

text \<open>The number of binary digits of a positive integer.\<close>

function bitlen :: "int \<Rightarrow> nat" where
  "bitlen n = (if n \<le> 0 then 0 else Suc (bitlen (n div 2)))"
  by pat_completeness auto
termination
  by (relation "measure nat") auto

declare bitlen.simps [simp del]

text \<open>
  The binary exponent of a positive rational \<open>x\<close>, the \<open>e\<close> with
  \<open>2 powi e \<le> x < 2 powi (e + 1)\<close>, from the digits of its numerator and denominator.
\<close>

definition exponent :: "rat \<Rightarrow> int" where
  "exponent x =
     (let (a, b) = quotient_of x;
          k = int (bitlen a) - int (bitlen b)
      in if 2 powi k \<le> x then k else k - 1)"

text \<open>Rounding to the nearest integer, ties to the even one.\<close>

definition roundHalfEven :: "rat \<Rightarrow> int" where
  "roundHalfEven x =
     (let f = \<lfloor>x\<rfloor>; d = x - of_int f
      in if d < 1 / 2 then f else if 1 / 2 < d then f + 1 else if even f then f else f + 1)"

text \<open>
  Rounding to binary64: 53 significant binary digits, the exponent not below -1022
  (below it the spacing of the subnormal numbers stays that of exponent -1022), and
  overflow to an infinity from \<open>2 powi 1024\<close> on.
\<close>

definition roundToDouble :: "rat \<Rightarrow> Number" where
  "roundToDouble x =
     (if x = 0 then Val 0
      else
        let e = max (exponent \<bar>x\<bar>) (- 1022);
            u = 2 powi (e - 52);
            y = of_int (roundHalfEven (\<bar>x\<bar> / u)) * u
        in if 2 powi 1024 \<le> y then Infinity (0 < x) else Val (sgn x * y))"

text \<open>The quotient \<^verbatim>\<open>x / y\<close> of two finite numbers.\<close>

definition jsDivide :: "rat \<Rightarrow> rat \<Rightarrow> Number" where
  "jsDivide x y =
     (if y = 0 then (if x = 0 then NaN else Infinity (0 < x)) else roundToDouble (x / y))"

text \<open>The product \<^verbatim>\<open>v * 100\<close>.\<close>

definition timesHundred :: "Number \<Rightarrow> Number" where
  "timesHundred v =
     (case v of NaN \<Rightarrow> NaN | Infinity pos \<Rightarrow> Infinity pos | Val x \<Rightarrow> roundToDouble (x * 100))"

text \<open>
  \<^verbatim>\<open>Math.round\<close>: the integer nearest to the argument, the larger one at a tie; NaN
  and the infinities are returned as they are.
\<close>

definition mathRound :: "Number \<Rightarrow> Number" where
  "mathRound v = (case v of Val x \<Rightarrow> Val (of_int \<lfloor>x + 1 / 2\<rfloor>) | other \<Rightarrow> other)"

text \<open>The text of \<^verbatim>\<open>progress-percentage\<close>, before the percent sign.\<close>

definition completionPercentage :: "InspectionItem list \<Rightarrow> Number" where
  "completionPercentage its =
     mathRound (timesHundred
       (jsDivide (of_nat (length its) - of_nat (orZero (stats its Pending)))
                 (of_nat (length its))))"

section \<open>Example states of the submission page\<close>

definition exItems :: "InspectionItem list" where
  "exItems =
     [\<lparr>id' = ''1'', name = ''Desk'', description = ''d'', status = Pending, comment = ''''\<rparr>,
      \<lparr>id' = ''2'', name = ''Lamp'', description = ''l'', status = Bad, comment = ''''\<rparr>]"

definition exSubmitPage :: SubmitPage where
  "exSubmitPage = initialSubmitPage\<lparr>studentEmail := ''s@npc.rw'', items := exItems, isLoading := False\<rparr>"




section \<open>Example states and responses of the report list page\<close>

definition exReportPage :: ReportPage where
  "exReportPage = initialReportPage\<lparr>studentEmail := ''s@npc.rw'', loading := False\<rparr>"

definition exBadPagination :: PaginationInfo where
  "exBadPagination =
     \<lparr>currentPage = 5, totalPages = 2, totalReports = 12, hasNext = True, hasPrev = False\<rparr>"

definition exGoodPagination :: PaginationInfo where
  "exGoodPagination =
     \<lparr>currentPage = 2, totalPages = 3, totalReports = 25, hasNext = True, hasPrev = True\<rparr>"

definition exGoodResponse :: ListResponse where
  "exGoodResponse =
     Http 200 (Some \<lparr>resSuccess = True,
       resData = Some \<lparr>dataReports = Some [], dataPagination = Some exGoodPagination\<rparr>,
       resMessage = None\<rparr>)"


definition exForty :: "InspectionItem list" where
  "exForty =
     replicate 23 \<lparr>id' = ''g'', name = ''Desk'', description = ''d'', status = Good, comment = ''''\<rparr> @
     replicate 17 \<lparr>id' = ''p'', name = ''Lamp'', description = ''l'', status = Pending, comment = ''''\<rparr>"

section \<open>Auxiliary facts about lists and strings\<close>

lemma map_upd_none:
  "\<forall>x \<in> set xs. \<not> P x \<Longrightarrow> map (\<lambda>x. if P x then f x else x) xs = xs"
  by (induction xs) auto

lemma map_upd_single:
  assumes "distinct (map f xs)" "i < length xs"
  shows "map (\<lambda>x. if f x = f (xs ! i) then g x else x) xs = xs[i := g (xs ! i)]"
proof (rule nth_equalityI)
  show "length (map (\<lambda>x. if f x = f (xs ! i) then g x else x) xs) = length (xs[i := g (xs ! i)])"
    by simp
next
  fix j assume "j < length (map (\<lambda>x. if f x = f (xs ! i) then g x else x) xs)"
  then have j: "j < length xs" by simp
  have "f (xs ! j) = f (xs ! i) \<longleftrightarrow> j = i"
    using assms j by (auto simp: distinct_conv_nth)
  then show "map (\<lambda>x. if f x = f (xs ! i) then g x else x) xs ! j = xs[i := g (xs ! i)] ! j"
    using j by (simp add: nth_list_update)
qed



section \<open>The catalog fetch on mount\<close>

text \<open>
  Claim C1 says that in both failure modes of the catalog fetch the items become the
  five-item fallback catalog and a warning is shown. Evaluated on the state of a freshly
  mounted page: when the request throws, the notification "Connection Error ... Using demo
  data." is shown but the items stay the empty list; when the body has an invalid shape,
  the fallback catalog is installed but no notification is shown.
\<close>

theorem fetchItems_failure_modes:
  "items (fetchItems Threw initialSubmitPage) = []
   \<and> toasts (fetchItems Threw initialSubmitPage) =
       [ToastError ''Connection Error'' ''Failed to load inspection items. Using demo data.'']
   \<and> items (fetchItems (Responded \<lparr>itemsSuccess = False, itemsArray = None, itemsMessage = None\<rparr>)
        initialSubmitPage) = fallbackItems
   \<and> toasts (fetchItems (Responded \<lparr>itemsSuccess = False, itemsArray = None, itemsMessage = None\<rparr>)
        initialSubmitPage) = []"
  by (simp add: fetchItems_def initialSubmitPage_def)

section \<open>Local edits of one item\<close>

text \<open>
  Claim C10: \<^verbatim>\<open>handleStatusChange(id, status)\<close> and \<^verbatim>\<open>handleCommentChange(id, text)\<close>
  are local. Each changes nothing of the page but its items (so no request is sent and no
  notification shown), keeps the length of the list, replaces the status (the comment) of
  the items whose identifier is \<^verbatim>\<open>id\<close> and leaves every other item as it is; when
  no item has the identifier the page is unchanged; and when the identifiers are distinct,
  the result is the list with the one matching position updated.
\<close>

theorem handleChange_local:
  "handleStatusChange itemId s st = st\<lparr>items := items (handleStatusChange itemId s st)\<rparr>
   \<and> length (items (handleStatusChange itemId s st)) = length (items st)
   \<and> (\<forall>i < length (items st).
         items (handleStatusChange itemId s st) ! i =
           (if id' (items st ! i) = itemId then (items st ! i)\<lparr>status := s\<rparr> else items st ! i))
   \<and> ((\<forall>item \<in> set (items st). id' item \<noteq> itemId) \<longrightarrow> handleStatusChange itemId s st = st)
   \<and> (distinct (map id' (items st)) \<longrightarrow>
        (\<forall>i < length (items st). id' (items st ! i) = itemId \<longrightarrow>
           items (handleStatusChange itemId s st) = (items st)[i := (items st ! i)\<lparr>status := s\<rparr>]))
   \<and> handleCommentChange itemId c st = st\<lparr>items := items (handleCommentChange itemId c st)\<rparr>
   \<and> length (items (handleCommentChange itemId c st)) = length (items st)
   \<and> (\<forall>i < length (items st).
         items (handleCommentChange itemId c st) ! i =
           (if id' (items st ! i) = itemId then (items st ! i)\<lparr>comment := c\<rparr> else items st ! i))
   \<and> ((\<forall>item \<in> set (items st). id' item \<noteq> itemId) \<longrightarrow> handleCommentChange itemId c st = st)
   \<and> (distinct (map id' (items st)) \<longrightarrow>
        (\<forall>i < length (items st). id' (items st ! i) = itemId \<longrightarrow>
           items (handleCommentChange itemId c st) = (items st)[i := (items st ! i)\<lparr>comment := c\<rparr>]))"
proof -
  have none_s: "handleStatusChange itemId s st = st"
    if "\<forall>item \<in> set (items st). id' item \<noteq> itemId"
    using that by (simp add: handleStatusChange_def map_upd_none)
  have none_c: "handleCommentChange itemId c st = st"
    if "\<forall>item \<in> set (items st). id' item \<noteq> itemId"
    using that by (simp add: handleCommentChange_def map_upd_none)
  have one_s: "items (handleStatusChange itemId s st) = (items st)[i := (items st ! i)\<lparr>status := s\<rparr>]"
    if "distinct (map id' (items st))" "i < length (items st)" "id' (items st ! i) = itemId" for i
    using map_upd_single [OF that(1) that(2), of "\<lambda>item. item\<lparr>status := s\<rparr>"] that(3)
    by (simp add: handleStatusChange_def)
  have one_c: "items (handleCommentChange itemId c st) = (items st)[i := (items st ! i)\<lparr>comment := c\<rparr>]"
    if "distinct (map id' (items st))" "i < length (items st)" "id' (items st ! i) = itemId" for i
    using map_upd_single [OF that(1) that(2), of "\<lambda>item. item\<lparr>comment := c\<rparr>"] that(3)
    by (simp add: handleCommentChange_def)
  have frame: "handleStatusChange itemId s st = st\<lparr>items := items (handleStatusChange itemId s st)\<rparr>"
    "handleCommentChange itemId c st = st\<lparr>items := items (handleCommentChange itemId c st)\<rparr>"
    by (simp_all add: handleStatusChange_def handleCommentChange_def)
  have pointwise:
    "\<forall>i < length (items st).
         items (handleStatusChange itemId s st) ! i =
           (if id' (items st ! i) = itemId then (items st ! i)\<lparr>status := s\<rparr> else items st ! i)"
    "\<forall>i < length (items st).
         items (handleCommentChange itemId c st) ! i =
           (if id' (items st ! i) = itemId then (items st ! i)\<lparr>comment := c\<rparr> else items st ! i)"
    by (simp_all add: handleStatusChange_def handleCommentChange_def)
  have len: "length (items (handleStatusChange itemId s st)) = length (items st)"
    "length (items (handleCommentChange itemId c st)) = length (items st)"
    by (simp_all add: handleStatusChange_def handleCommentChange_def)
  show ?thesis
    using none_s none_c one_s one_c frame pointwise len by blast
qed

theorem handleChange_local_witness:
  "items (handleStatusChange ''2'' Flagged exSubmitPage) =
     [\<lparr>id' = ''1'', name = ''Desk'', description = ''d'', status = Pending, comment = ''''\<rparr>,
      \<lparr>id' = ''2'', name = ''Lamp'', description = ''l'', status = Flagged, comment = ''''\<rparr>]
   \<and> items (handleCommentChange ''1'' ''dusty'' exSubmitPage) =
     [\<lparr>id' = ''1'', name = ''Desk'', description = ''d'', status = Pending, comment = ''dusty''\<rparr>,
      \<lparr>id' = ''2'', name = ''Lamp'', description = ''l'', status = Bad, comment = ''''\<rparr>]
   \<and> handleStatusChange ''7'' Good exSubmitPage = exSubmitPage
   \<and> handleCommentChange ''7'' ''x'' exSubmitPage = exSubmitPage
   \<and> submitRequests (handleCommentChange ''1'' ''dusty'' exSubmitPage) = []
   \<and> toasts (handleStatusChange ''2'' Flagged exSubmitPage) = []"
  using handleChange_local [of "''7''" Good exSubmitPage "''x''"]
    handleChange_local [of "''2''" Flagged exSubmitPage "''dusty''"]
    handleChange_local [of "''1''" Flagged exSubmitPage "''dusty''"]
  by (simp add: exSubmitPage_def exItems_def initialSubmitPage_def handleStatusChange_def
      handleCommentChange_def)

section \<open>Submitting the report\<close>





section \<open>Statistics and the completion percentage\<close>

subsection \<open>The counts\<close>

lemma stats_foldl:
  "foldl countStatus m its s =
     (if filter (\<lambda>item. status item = s) its = [] then m s
      else Some (orZero (m s) + length (filter (\<lambda>item. status item = s) its)))"
proof (induction its arbitrary: m)
  case Nil
  then show ?case by simp
next
  case (Cons item its)
  have step: "foldl countStatus m (item # its) s = foldl countStatus (countStatus m item) its s"
    by simp
  show ?case
    unfolding step Cons.IH
    by (simp add: countStatus_def orZero_def)
qed

lemma stats_count:
  "stats its s =
     (if length (filter (\<lambda>item. status item = s) its) = 0 then None
      else Some (length (filter (\<lambda>item. status item = s) its)))"
  by (simp add: stats_def stats_foldl orZero_def)

lemma orZero_stats: "orZero (stats its s) = length (filter (\<lambda>item. status item = s) its)"
  by (simp add: stats_count orZero_def)

subsection \<open>Rounding to binary64\<close>















subsection \<open>The displayed percentage\<close>





section \<open>Outcomes of a listing request\<close>

text \<open>
  Claim C6: when the listing request is answered with status 404, the reports become the
  empty list and the pagination becomes
  \<^verbatim>\<open>{currentPage:1, totalPages:1, totalReports:0, hasNext:false, hasPrev:false}\<close>,
  whatever the body; the notifications are those shown before, so no failure notification
  is added. The first conjunct is the handling of the response alone; the second is the
  whole call, which sends the request only when the identity value is present.
\<close>

theorem fetchReports_404:
  "fetchReports_receive (Http 404 body) st =
     st\<lparr>reports := [],
        pagination := \<lparr>currentPage = 1, totalPages = 1, totalReports = 0,
                        hasNext = False, hasPrev = False\<rparr>,
        loading := False\<rparr>
   \<and> (studentEmail st \<noteq> [] \<longrightarrow>
        fetchReports f s p (Http 404 body) st =
          st\<lparr>reports := [],
             pagination := \<lparr>currentPage = 1, totalPages = 1, totalReports = 0,
                             hasNext = False, hasPrev = False\<rparr>,
             loading := False,
             listRequests := listRequests st @ [listParams (studentEmail st) f s p]\<rparr>
        \<and> toasts (fetchReports f s p (Http 404 body) st) = toasts st)"
  by (simp add: fetchReports_def fetchReports_receive_def fetchReports_send_def defaultPagination_def)

theorem fetchReports_404_witness:
  "reports (fetchReports Weekly ''desk'' 1 (Http 404 None) exReportPage) = []
   \<and> pagination (fetchReports Weekly ''desk'' 1 (Http 404 None) exReportPage) =
       \<lparr>currentPage = 1, totalPages = 1, totalReports = 0, hasNext = False, hasPrev = False\<rparr>
   \<and> toasts (fetchReports Weekly ''desk'' 1 (Http 404 None) exReportPage) = []"
  using fetchReports_404 [of None exReportPage Weekly "''desk''" 1]
  by (simp add: exReportPage_def initialReportPage_def)

text \<open>
  Claim C2 says that a response with a status from 200 to 299 whose body has
  \<^verbatim>\<open>success: false\<close> shows a failure notification and resets the state. The
  \<^verbatim>\<open>else\<close> branch of \<^verbatim>\<open>fetchReports\<close> only logs to the console: on a page that
  has shown no notification, none is shown after such a response.
\<close>

theorem fetchReports_reported_failure_silent:
  "toasts (fetchReports AllReports '''' 1
      (Http 200 (Some \<lparr>resSuccess = False, resData = None, resMessage = Some ''Server busy''\<rparr>))
      exReportPage) = []"
  by (simp add: fetchReports_def fetchReports_receive_def fetchReports_send_def
      exReportPage_def initialReportPage_def)

text \<open>
  Claim C2 as amended: such a response resets the reports to the empty list and the
  pagination to its default and clears the loading flag; nothing else of the page changes
  but the log of requests, so no notification is shown.
\<close>

theorem fetchReports_reported_failure:
  assumes "studentEmail st \<noteq> []" and "200 \<le> code" and "code \<le> 299"
    and "\<not> resSuccess result"
  shows "fetchReports f s p (Http code (Some result)) st =
           st\<lparr>reports := [], pagination := defaultPagination, loading := False,
              listRequests := listRequests st @ [listParams (studentEmail st) f s p]\<rparr>
     \<and> toasts (fetchReports f s p (Http code (Some result)) st) = toasts st"
  using assms
  by (simp add: fetchReports_def fetchReports_receive_def fetchReports_send_def)

theorem fetchReports_reported_failure_witness:
  "fetchReports AllReports '''' 1
      (Http 200 (Some \<lparr>resSuccess = False, resData = None, resMessage = Some ''Server busy''\<rparr>))
      (exReportPage\<lparr>reports := [\<lparr>reportId = ''r1'', title = ''t'', submissionDate = ''d'',
          csApproved = False, cpApproved = False, reportStatus = ReportPending, class' = ''L5''\<rparr>]\<rparr>) =
     exReportPage\<lparr>listRequests := [listParams ''s@npc.rw'' AllReports '''' 1]\<rparr>"
proof -
  have h: "studentEmail (exReportPage\<lparr>reports := [\<lparr>reportId = ''r1'', title = ''t'', submissionDate = ''d'',
          csApproved = False, cpApproved = False, reportStatus = ReportPending, class' = ''L5''\<rparr>]\<rparr>) \<noteq> []"
    by (simp add: exReportPage_def)
  have c: "(200::nat) \<le> 200" "(200::nat) \<le> 299" by simp_all
  have r: "\<not> resSuccess \<lparr>resSuccess = False, resData = None, resMessage = Some ''Server busy''\<rparr>"
    by simp
  show ?thesis
    using fetchReports_reported_failure [OF h c r, of AllReports "''''" 1]
    by (simp add: exReportPage_def initialReportPage_def)
qed

section \<open>The pagination invariant\<close>

text \<open>
  Claim C9 says the pagination of the page satisfies the invariant after every fetch
  outcome. The success branch stores the pagination of the response as it is: a response
  with \<^verbatim>\<open>currentPage: 5, totalPages: 2, hasNext: true, hasPrev: false\<close> leaves the
  page with a pagination that violates the invariant.
\<close>

theorem pagination_invariant_broken:
  "\<not> paginationInv (pagination (fetchReports AllReports '''' 1
      (Http 200 (Some \<lparr>resSuccess = True,
         resData = Some \<lparr>dataReports = Some [], dataPagination = Some exBadPagination\<rparr>,
         resMessage = None\<rparr>))
      exReportPage))"
  by (simp add: fetchReports_def fetchReports_receive_def fetchReports_send_def
      exReportPage_def initialReportPage_def exBadPagination_def paginationInv_def)

lemma pagination_receive:
  "pagination (fetchReports_receive resp st) =
     (case responsePagination resp of None \<Rightarrow> defaultPagination | Some p \<Rightarrow> p)"
  by (simp add: fetchReports_receive_def responsePagination_def fetchReports_caught_def
      split: ListResponse.splits option.splits bool.splits)

lemma pagination_send: "pagination (fetchReports_send f s pg st) = pagination st"
  by (simp add: fetchReports_send_def)

lemma pagination_fetch:
  "pagination (fetchReports f s pg resp st) =
     (if studentEmail st = [] then pagination st
      else case responsePagination resp of None \<Rightarrow> defaultPagination | Some p \<Rightarrow> p)"
  by (simp add: fetchReports_def pagination_receive)

lemma paginationInv_default: "paginationInv defaultPagination"
  by (simp add: paginationInv_def defaultPagination_def)

text \<open>
  Claim C9 as amended: the invariant holds in the initial state and after mounting; a
  fetch and a page change keep it provided the pagination the response carries (if any)
  satisfies it, since that pagination is stored unchanged and every other outcome stores
  the default; changing the filter or the search text and the firing of the timer do not
  touch the pagination.
\<close>

theorem pagination_invariant_preserved:
  "paginationInv (pagination initialReportPage)
   \<and> paginationInv (pagination (mountReportPage email))
   \<and> (paginationInv (pagination st) \<and> (\<forall>p. responsePagination resp = Some p \<longrightarrow> paginationInv p) \<longrightarrow>
        paginationInv (pagination (fetchReports f s pg resp st)) \<and>
        paginationInv (pagination (handlePageChange pg resp st)))
   \<and> (studentEmail st \<noteq> [] \<and> responsePagination resp = Some p \<longrightarrow>
        pagination (fetchReports f s pg resp st) = p)
   \<and> pagination (filterChanged f st) = pagination st
   \<and> pagination (searchChanged s st) = pagination st
   \<and> pagination (elapse ms st) = pagination st"
proof -
  have init: "paginationInv (pagination initialReportPage)"
    by (simp add: initialReportPage_def paginationInv_default)
  have mount: "paginationInv (pagination (mountReportPage email))"
    by (simp add: mountReportPage_def commit_def fetchEffect_def initialReportPage_def
        paginationInv_default)
  have fetch: "paginationInv (pagination (fetchReports f s pg resp st))"
    if "paginationInv (pagination st)" "\<forall>p. responsePagination resp = Some p \<longrightarrow> paginationInv p"
    for pg
    using that by (simp add: pagination_fetch paginationInv_default split: option.splits)
  have page: "paginationInv (pagination (handlePageChange pg resp st))"
    if "paginationInv (pagination st)" "\<forall>p. responsePagination resp = Some p \<longrightarrow> paginationInv p"
    using that fetch [OF that] by (simp add: handlePageChange_def pagination_fetch split: option.splits)
  have verbatim: "pagination (fetchReports f s pg resp st) = p"
    if "studentEmail st \<noteq> []" "responsePagination resp = Some p"
    using that by (simp add: pagination_fetch)
  have frame: "pagination (filterChanged f st) = pagination st"
    "pagination (searchChanged s st) = pagination st"
    by (simp_all add: filterChanged_def searchChanged_def commit_def fetchEffect_def
        handleFilterChange_def handleSearchChange_def)
  have time: "pagination (elapse ms st) = pagination st"
    by (simp add: elapse_def pagination_send split: option.splits)
  show ?thesis
    using init mount fetch page verbatim frame time by blast
qed

theorem pagination_invariant_preserved_witness:
  "paginationInv (pagination (fetchReports Daily '''' 2 exGoodResponse exReportPage))
   \<and> pagination (fetchReports Daily '''' 2 exGoodResponse exReportPage) = exGoodPagination
   \<and> paginationInv (pagination (handlePageChange 1 exGoodResponse exReportPage))"
proof -
  have rp: "responsePagination exGoodResponse = Some exGoodPagination"
    by (simp add: responsePagination_def exGoodResponse_def)
  have good: "paginationInv exGoodPagination"
    by (simp add: paginationInv_def exGoodPagination_def)
  have h1: "paginationInv (pagination exReportPage)"
    by (simp add: exReportPage_def initialReportPage_def paginationInv_def defaultPagination_def)
  have h2: "\<forall>p. responsePagination exGoodResponse = Some p \<longrightarrow> paginationInv p"
    using rp good by simp
  have h3: "studentEmail exReportPage \<noteq> []"
    by (simp add: exReportPage_def)
  show ?thesis
    using pagination_invariant_preserved [of "''''" exReportPage exGoodResponse Daily "''''" 2
        exGoodPagination 0]
      pagination_invariant_preserved [of "''''" exReportPage exGoodResponse Daily "''''" 1
        exGoodPagination 0]
      h1 h2 h3 rp
    by blast
qed

section \<open>The fetch effect: filter changes and the search debounce\<close>

lemma elapse_requests:
  "studentEmail st \<noteq> [] \<Longrightarrow> timer st = Some t \<Longrightarrow>
   listRequests (elapse ms st) =
     (if delay t \<le> ms
      then listRequests st @ [listParams (studentEmail st) (timerFilter t) (timerSearch t) 1]
      else listRequests st)"
  by (simp add: elapse_def fetchReports_send_def)

lemma filterChanged_state:
  "studentEmail st \<noteq> [] \<Longrightarrow> f \<noteq> activeFilter st \<Longrightarrow>
   filterChanged f st =
     st\<lparr>activeFilter := f,
        timer := Some \<lparr>delay = (if searchQuery st = [] then 0 else 500),
                        timerFilter = f, timerSearch = searchQuery st\<rparr>\<rparr>"
  by (simp add: filterChanged_def commit_def handleFilterChange_def fetchEffect_def)


text \<open>
  Claim C3 says that changing the filter fetches at once, whatever the search text. The
  delay of the effect's timer depends on the search text only: with the search text
  \<^verbatim>\<open>wiring\<close>, a change of the filter sets a timer of 500 ms, and no request has
  been sent after 0 ms nor after 499 ms.
\<close>

theorem filter_change_debounced:
  "timer (filterChanged Daily (exReportPage\<lparr>searchQuery := ''wiring''\<rparr>)) =
     Some \<lparr>delay = 500, timerFilter = Daily, timerSearch = ''wiring''\<rparr>
   \<and> listRequests (elapse 0 (filterChanged Daily (exReportPage\<lparr>searchQuery := ''wiring''\<rparr>))) = []
   \<and> listRequests (elapse 499 (filterChanged Daily (exReportPage\<lparr>searchQuery := ''wiring''\<rparr>))) = []"
  by (simp add: filterChanged_def commit_def handleFilterChange_def fetchEffect_def elapse_def
      exReportPage_def initialReportPage_def)

text \<open>
  Claim C3 as amended: with the identity value present, changing the filter to a different
  value sends nothing by itself and sets the timer for a fetch of page 1 with the new
  filter and the current search text. With an empty search text the delay is 0 and the
  request is sent without any time passing; with a non-empty search text the delay is
  500 ms: no request before, the request from then on.
\<close>

theorem filterChanged_schedules_fetch:
  assumes "studentEmail st \<noteq> []" and "f \<noteq> activeFilter st"
  shows "timer (filterChanged f st) =
           Some \<lparr>delay = (if searchQuery st = [] then 0 else 500),
                 timerFilter = f, timerSearch = searchQuery st\<rparr>
     \<and> listRequests (filterChanged f st) = listRequests st
     \<and> (searchQuery st = [] \<longrightarrow>
          listRequests (elapse 0 (filterChanged f st)) =
            listRequests st @ [listParams (studentEmail st) f [] 1])
     \<and> (searchQuery st \<noteq> [] \<longrightarrow>
          (\<forall>ms < 500. listRequests (elapse ms (filterChanged f st)) = listRequests st) \<and>
          (\<forall>ms \<ge> 500. listRequests (elapse ms (filterChanged f st)) =
            listRequests st @ [listParams (studentEmail st) f (searchQuery st) 1]))
     \<and> reqPage (listParams (studentEmail st) f (searchQuery st) 1) = 1"
proof -
  let ?st' = "filterChanged f st"
  have st': "?st' = st\<lparr>activeFilter := f,
        timer := Some \<lparr>delay = (if searchQuery st = [] then 0 else 500),
                        timerFilter = f, timerSearch = searchQuery st\<rparr>\<rparr>"
    using assms by (rule filterChanged_state)
  have e: "studentEmail ?st' \<noteq> []" using assms(1) by (simp add: st')
  have t: "timer ?st' = Some \<lparr>delay = (if searchQuery st = [] then 0 else 500),
                        timerFilter = f, timerSearch = searchQuery st\<rparr>"
    by (simp add: st')
  have r: "listRequests ?st' = listRequests st" "studentEmail ?st' = studentEmail st"
    by (simp_all add: st')
  show ?thesis
    using t r by (simp add: elapse_requests [OF e t] listParams_def)
qed

theorem filterChanged_schedules_fetch_witness:
  "listRequests (elapse 0 (filterChanged Weekly exReportPage)) =
     [listParams ''s@npc.rw'' Weekly '''' 1]
   \<and> listRequests (elapse 120 (filterChanged Weekly (exReportPage\<lparr>searchQuery := ''wiring''\<rparr>))) = []
   \<and> listRequests (elapse 500 (filterChanged Weekly (exReportPage\<lparr>searchQuery := ''wiring''\<rparr>))) =
     [listParams ''s@npc.rw'' Weekly ''wiring'' 1]"
proof -
  have h1: "studentEmail exReportPage \<noteq> []"
    "studentEmail (exReportPage\<lparr>searchQuery := ''wiring''\<rparr>) \<noteq> []"
    by (simp_all add: exReportPage_def)
  have h2: "Weekly \<noteq> activeFilter exReportPage"
    "Weekly \<noteq> activeFilter (exReportPage\<lparr>searchQuery := ''wiring''\<rparr>)"
    by (simp_all add: exReportPage_def initialReportPage_def)
  show ?thesis
    using filterChanged_schedules_fetch [OF h1(1) h2(1)]
      filterChanged_schedules_fetch [OF h1(2) h2(2)]
    by (simp add: exReportPage_def initialReportPage_def)
qed




section \<open>Further properties of the two pages\<close>

text \<open>
  \<^verbatim>\<open>handleClearSelection\<close> makes every item pending with an empty comment, keeps the
  identifiers, and a second call leaves the items as the first did.
\<close>

theorem handleClearSelection_idempotent:
  "map status (items (handleClearSelection st)) = replicate (length (items st)) Pending
   \<and> map comment (items (handleClearSelection st)) = replicate (length (items st)) []
   \<and> map id' (items (handleClearSelection st)) = map id' (items st)
   \<and> items (handleClearSelection (handleClearSelection st)) = items (handleClearSelection st)"
  by (simp add: handleClearSelection_def map_replicate_const comp_def)

text \<open>
  \<^verbatim>\<open>handleMarkAllGood\<close> sets every status to good, leaves the comments and the
  identifiers as they are, and shows one success notification.
\<close>

theorem handleMarkAllGood_effect:
  "map status (items (handleMarkAllGood st)) = replicate (length (items st)) Good
   \<and> map comment (items (handleMarkAllGood st)) = map comment (items st)
   \<and> map id' (items (handleMarkAllGood st)) = map id' (items st)
   \<and> toasts (handleMarkAllGood st) =
       toasts st @ [ToastSuccess ''All items marked as Good''
                      ''You can still modify individual items as needed.'']"
  by (simp add: handleMarkAllGood_def map_replicate_const comp_def)

text \<open>
  \<^verbatim>\<open>handlePageChange(newPage)\<close> does nothing unless the page is between 1 and
  \<^verbatim>\<open>totalPages\<close>; otherwise it requests that page with the current filter and search
  text.
\<close>

theorem handlePageChange_guard:
  "(newPage < 1 \<or> totalPages (pagination st) < newPage \<longrightarrow> handlePageChange newPage resp st = st)
   \<and> (1 \<le> newPage \<and> newPage \<le> totalPages (pagination st) \<and> studentEmail st \<noteq> [] \<longrightarrow>
        listRequests (handlePageChange newPage resp st) =
          listRequests st @
            [listParams (studentEmail st) (activeFilter st) (searchQuery st) newPage])"
  by (auto simp add: handlePageChange_def fetchReports_def fetchReports_send_def
      fetchReports_receive_def fetchReports_caught_def
      split: ListResponse.splits option.splits bool.splits)

theorem handlePageChange_guard_witness:
  "handlePageChange 2 FetchFailed exReportPage = exReportPage
   \<and> listRequests (handlePageChange 3 FetchFailed
        (exReportPage\<lparr>pagination := exGoodPagination, activeFilter := Weekly\<rparr>)) =
       [listParams ''s@npc.rw'' Weekly '''' 3]"
  using handlePageChange_guard [of 2 exReportPage FetchFailed]
    handlePageChange_guard [of 3 "exReportPage\<lparr>pagination := exGoodPagination, activeFilter := Weekly\<rparr>"
      FetchFailed]
  by (simp add: exReportPage_def initialReportPage_def defaultPagination_def exGoodPagination_def)

text \<open>
  Without the identity value no listing request is sent: \<^verbatim>\<open>fetchReports\<close> returns at
  once, the effect sets no timer, and the page as mounted with an empty stored value has
  no timer and has sent nothing.
\<close>

theorem identity_gating:
  "(studentEmail st = [] \<longrightarrow>
      fetchReports f s p resp st = st \<and> timer (fetchEffect st) = None \<and>
      listRequests (elapse ms (fetchEffect st)) = listRequests st)
   \<and> timer (mountReportPage []) = None
   \<and> listRequests (mountReportPage []) = []"
  by (simp add: fetchReports_def fetchEffect_def elapse_def mountReportPage_def commit_def
      initialReportPage_def)

theorem identity_gating_witness:
  "fetchReports Daily ''desk'' 1 exGoodResponse initialReportPage = initialReportPage
   \<and> listRequests (elapse 1000 (fetchEffect initialReportPage)) = []"
  using identity_gating [of initialReportPage Daily "''desk''" 1 exGoodResponse 1000]
  by (simp add: initialReportPage_def)

text \<open>
  At a tie the two roundings decide: with 40 items of which 17 are pending the exact
  percentage is 57.5, the product computed in binary64 lies just below it, and the page
  displays 57.
\<close>

lemma tie_value: "mathRound (timesHundred (jsDivide 23 40)) = Val 57"
  by code_simp

theorem completion_tie_example:
  "completionPercentage exForty = Val 57
   \<and> 100 * (of_nat (length exForty) - of_nat (orZero (stats exForty Pending))) /
       of_nat (length exForty) = (115 / 2 :: rat)"
proof -
  have p: "orZero (stats exForty Pending) = 17"
    by (simp add: orZero_stats exForty_def)
  have n: "length exForty = 40"
    by (simp add: exForty_def)
  show ?thesis
    using tie_value by (simp add: completionPercentage_def p n)
qed

end
